theory Spec2Isabelle
  imports Main
begin

section \<open>The dataset downloader (Dataset/download\_multi-view\_data.py)\<close>

text \<open>
  The script has three functions: \<open>check_dependencies\<close>, \<open>download_datasets\<close> and
  \<open>main\<close>. Everything they do is an effect: log records, lines on standard output,
  calls into the operating system and into the \<open>gdown\<close> module. The embedding threads
  a state through the three functions; the state holds the file system and the trace of
  observable events, in the order in which the script produces them.
\<close>

subsection \<open>Python exceptions\<close>

text \<open>
  Only the part of Python's exception hierarchy that the script's two \<open>except\<close>
  clauses distinguish: \<open>ImportError\<close> and \<open>OSError\<close> are subclasses of
  \<open>Exception\<close>; \<open>Exception_other\<close> stands for any other instance of class
  \<open>Exception\<close>; \<open>KeyboardInterrupt\<close> and \<open>SystemExit\<close> derive from
  \<open>BaseException\<close> only. The string is what \<open>str(e)\<close> gives.
\<close>

datatype exn =
    ImportError string
  | OSError string
  | Exception_other string
  | KeyboardInterrupt
  | SystemExit nat

fun is_Exception :: "exn \<Rightarrow> bool" where
  "is_Exception (ImportError m) = True"
| "is_Exception (OSError m) = True"
| "is_Exception (Exception_other m) = True"
| "is_Exception KeyboardInterrupt = False"
| "is_Exception (SystemExit c) = False"

fun is_ImportError :: "exn \<Rightarrow> bool" where
  "is_ImportError (ImportError m) = True"
| "is_ImportError e = False"

fun str_exn :: "exn \<Rightarrow> string" where
  "str_exn (ImportError m) = m"
| "str_exn (OSError m) = m"
| "str_exn (Exception_other m) = m"
| "str_exn KeyboardInterrupt = []"
| "str_exn (SystemExit c) = []"

datatype 'a result = Return 'a | Raise exn

subsection \<open>Observable events and the state\<close>

datatype level = INFO | WARNING | ERROR

text \<open>
  \<open>Log\<close> is a record handed to the \<open>logging\<close> module (configured at level INFO, so
  every record of the script is emitted), \<open>Print\<close> a call of \<open>print\<close>. The three
  \<open>Call\<close> events record that the script invoked \<open>os.makedirs\<close>,
  \<open>gdown.download_folder\<close> (with its arguments \<open>url\<close>, \<open>output\<close>, \<open>quiet\<close>,
  \<open>remaining_ok\<close>) and \<open>os.listdir\<close>.
\<close>

datatype event =
    Log level string
  | Print string
  | Call_makedirs string
  | Call_download_folder string string bool bool
  | Call_listdir string

text \<open>
  The file system: an association list from absolute paths (the list of their
  components below the root) to the kind of entry found there. The order of the list is
  the order in which \<open>os.listdir\<close> enumerates entries. There are no symbolic links and
  no permissions; relative paths are resolved against \<open>cwd\<close>.
\<close>

datatype kind = File | Dir

type_synonym path = "string list"
type_synonym filesystem = "(path \<times> kind) list"

record state =
  files :: filesystem
  cwd :: path
  trace :: "event list"

type_synonym 'a action = "state \<Rightarrow> 'a result \<times> state"

definition return :: "'a \<Rightarrow> 'a action" where
  "return x = (\<lambda>s. (Return x, s))"

definition raise :: "exn \<Rightarrow> 'a action" where
  "raise e = (\<lambda>s. (Raise e, s))"

text \<open>Sequencing: an exception of the first action skips the second.\<close>

definition bnd :: "'a action \<Rightarrow> ('a \<Rightarrow> 'b action) \<Rightarrow> 'b action" where
  "bnd m f = (\<lambda>s. case m s of (Return x, s') \<Rightarrow> f x s' | (Raise e, s') \<Rightarrow> (Raise e, s'))"

definition seq :: "unit action \<Rightarrow> 'b action \<Rightarrow> 'b action" where
  "seq m k = bnd m (\<lambda>_. k)"

definition emit :: "event \<Rightarrow> unit action" where
  "emit ev = (\<lambda>s. (Return (), s\<lparr>trace := trace s @ [ev]\<rparr>))"

definition logging_info :: "string \<Rightarrow> unit action" where
  "logging_info msg = emit (Log INFO msg)"

definition logging_warning :: "string \<Rightarrow> unit action" where
  "logging_warning msg = emit (Log WARNING msg)"

definition logging_error :: "string \<Rightarrow> unit action" where
  "logging_error msg = emit (Log ERROR msg)"

definition print :: "string \<Rightarrow> unit action" where
  "print msg = emit (Print msg)"

subsection \<open>Strings\<close>

text \<open>\<open>s.endswith(suf)\<close>: the last \<open>len(suf)\<close> characters of \<open>s\<close> are \<open>suf\<close>.\<close>

definition endswith :: "string \<Rightarrow> string \<Rightarrow> bool" where
  "endswith s suf = (length suf \<le> length s \<and> drop (length s - length suf) s = suf)"

text \<open>\<open>sep.join(xs)\<close>.\<close>

fun join :: "string \<Rightarrow> string list \<Rightarrow> string" where
  "join sep [] = []"
| "join sep [x] = x"
| "join sep (x # y # ys) = x @ sep @ join sep (y # ys)"

text \<open>\<open>str(n)\<close> for a non-negative integer: its decimal digits.\<close>

definition digit :: "nat \<Rightarrow> char" where
  "digit d = ''0123456789'' ! d"

fun str_nat :: "nat \<Rightarrow> string" where
  "str_nat n = (if n < 10 then [digit n] else str_nat (n div 10) @ [digit (n mod 10)])"

declare str_nat.simps [simp del]

text \<open>\<open>s.split(sep)\<close> for a one-character separator.\<close>

fun split_at :: "char \<Rightarrow> string \<Rightarrow> string \<Rightarrow> string list" where
  "split_at c acc [] = [rev acc]"
| "split_at c acc (x # xs) =
     (if x = c then rev acc # split_at c [] xs else split_at c (x # acc) xs)"

definition split :: "char \<Rightarrow> string \<Rightarrow> string list" where
  "split c s = split_at c [] s"

subsection \<open>The operating system\<close>

text \<open>
  A path string denotes the entry that \<open>os.path.abspath\<close> names: the string is cut at
  \<open>/\<close>, empty and \<open>.\<close> components are dropped, \<open>..\<close> removes the component before
  it, and a relative path starts from \<open>cwd\<close>.
\<close>

fun normalise :: "string list \<Rightarrow> string list \<Rightarrow> path" where
  "normalise acc [] = rev acc"
| "normalise acc (c # cs) =
     (if c = [] \<or> c = ''.'' then normalise acc cs
      else if c = ''..'' then normalise (tl acc) cs
      else normalise (c # acc) cs)"

definition isabs :: "string \<Rightarrow> bool" where
  "isabs name = (take 1 name = ''/'')"

definition resolve :: "path \<Rightarrow> string \<Rightarrow> path" where
  "resolve wd name = normalise (if isabs name then [] else rev wd) (split CHR ''/'' name)"

text \<open>The root always exists and is a directory.\<close>

definition node_at :: "filesystem \<Rightarrow> path \<Rightarrow> kind option" where
  "node_at fs p = (if p = [] then Some Dir else map_of fs p)"

text \<open>The non-empty prefixes of a path, shortest first: its ancestors and the path itself.\<close>

definition ancestors :: "path \<Rightarrow> path list" where
  "ancestors p = map (\<lambda>n. take n p) [1..<Suc (length p)]"

text \<open>
  \<open>os.path.exists(name)\<close> is true for an entry of any kind, a regular file included,
  never raises, and is false for the empty string.
\<close>

definition path_exists :: "filesystem \<Rightarrow> path \<Rightarrow> string \<Rightarrow> bool" where
  "path_exists fs wd name = (name \<noteq> [] \<and> node_at fs (resolve wd name) \<noteq> None)"

definition os_path_exists :: "string \<Rightarrow> bool action" where
  "os_path_exists name = (\<lambda>s. (Return (path_exists (files s) (cwd s) name), s))"

text \<open>
  \<open>os.makedirs(name)\<close> with the default \<open>exist_ok=False\<close>: FileExistsError when an
  entry is already there, NotADirectoryError when a regular file is on the way,
  FileNotFoundError for the empty string (all three are OSError); otherwise every
  missing ancestor and the leaf are created as directories.
\<close>

definition makedirs :: "filesystem \<Rightarrow> path \<Rightarrow> string \<Rightarrow> exn + filesystem" where
  "makedirs fs wd name =
     (let p = resolve wd name in
        if name = [] then Inl (OSError ''[Errno 2] No such file or directory'')
        else if node_at fs p \<noteq> None then Inl (OSError ''[Errno 17] File exists'')
        else if list_ex (\<lambda>q. node_at fs q = Some File) (ancestors p) then
          Inl (OSError ''[Errno 20] Not a directory'')
        else
          Inr (fs @ map (\<lambda>q. (q, Dir)) (filter (\<lambda>q. node_at fs q = None) (ancestors p))))"

definition os_makedirs :: "string \<Rightarrow> unit action" where
  "os_makedirs name =
     seq (emit (Call_makedirs name))
       (\<lambda>s. case makedirs (files s) (cwd s) name of
          Inl e \<Rightarrow> (Raise e, s)
        | Inr fs' \<Rightarrow> (Return (), s\<lparr>files := fs'\<rparr>))"

text \<open>
  \<open>os.listdir(name)\<close>: the names of the entries directly inside the directory, of any
  kind; raises OSError when the path is no directory.
\<close>

definition entries :: "filesystem \<Rightarrow> path \<Rightarrow> string list" where
  "entries fs p =
     map last (filter (\<lambda>q. q \<noteq> [] \<and> butlast q = p) (remdups (map fst fs)))"

definition listdir :: "filesystem \<Rightarrow> path \<Rightarrow> string \<Rightarrow> exn + string list" where
  "listdir fs wd name =
     (let p = resolve wd name in
        if name = [] then Inl (OSError ''[Errno 2] No such file or directory'')
        else case node_at fs p of
          None \<Rightarrow> Inl (OSError ''[Errno 2] No such file or directory'')
        | Some File \<Rightarrow> Inl (OSError ''[Errno 20] Not a directory'')
        | Some Dir \<Rightarrow> Inr (entries fs p))"

definition os_listdir :: "string \<Rightarrow> string list action" where
  "os_listdir name =
     seq (emit (Call_listdir name))
       (\<lambda>s. case listdir (files s) (cwd s) name of
          Inl e \<Rightarrow> (Raise e, s)
        | Inr names \<Rightarrow> (Return names, s))"

text \<open>
  \<open>os.path.abspath(name)\<close>: the normalised absolute path as a string. POSIX keeps
  exactly two leading slashes.
\<close>

definition abspath :: "path \<Rightarrow> string \<Rightarrow> string" where
  "abspath wd name =
     (if take 2 name = ''//'' \<and> take 3 name \<noteq> ''///'' then ''//'' else ''/'')
       @ join ''/'' (resolve wd name)"

definition os_path_abspath :: "string \<Rightarrow> string action" where
  "os_path_abspath name = (\<lambda>s. (Return (abspath (cwd s) name), s))"

subsection \<open>The gdown module\<close>

text \<open>
  The module is not part of the repository. Its \<open>download_folder\<close> is a parameter: any
  function that, given the arguments \<open>url\<close>, \<open>output\<close>, \<open>quiet\<close>, \<open>remaining_ok\<close>
  and the file system, leaves a file system behind and either returns (\<open>None\<close>) or
  raises (\<open>Some e\<close>).
\<close>

record gdown_module =
  download_folder ::
    "string \<Rightarrow> string \<Rightarrow> bool \<Rightarrow> bool \<Rightarrow> filesystem \<Rightarrow> exn option \<times> filesystem"

definition gdown_download_folder ::
    "gdown_module \<Rightarrow> string \<Rightarrow> string \<Rightarrow> bool \<Rightarrow> bool \<Rightarrow> unit action" where
  "gdown_download_folder gdown url output quiet remaining_ok =
     seq (emit (Call_download_folder url output quiet remaining_ok))
       (\<lambda>s. case download_folder gdown url output quiet remaining_ok (files s) of
          (None, fs') \<Rightarrow> (Return (), s\<lparr>files := fs'\<rparr>)
        | (Some e, fs') \<Rightarrow> (Raise e, s\<lparr>files := fs'\<rparr>))"

subsection \<open>check\_dependencies (lines 10--22)\<close>

text \<open>
  \<open>imp\<close> is what the statement \<open>import gdown\<close> does in the current environment: it
  gives the module (\<open>Inr\<close>) or raises (\<open>Inl\<close>). Only an ImportError is handled;
  \<open>sys.exit(1)\<close> raises \<open>SystemExit(1)\<close>.
\<close>

definition sys_exit :: "nat \<Rightarrow> 'a action" where
  "sys_exit code = raise (SystemExit code)"

definition check_dependencies :: "exn + gdown_module \<Rightarrow> gdown_module action" where
  "check_dependencies imp =
     (case imp of
        Inr gdown \<Rightarrow> return gdown
      | Inl e \<Rightarrow>
          if is_ImportError e then
            seq (logging_error ''Required dependency 'gdown' is not installed.'')
           (seq (print ''\<newline>Fix: Please install it using the following command:'')
           (seq (print ''    pip install gdown\<newline>'')
                (sys_exit 1)))
          else raise e)"

subsection \<open>download\_datasets (lines 25--65)\<close>

text \<open>Lines 36--38: the directory is created only when nothing exists at the path.\<close>

definition prepare_directory :: "string \<Rightarrow> unit action" where
  "prepare_directory output_dir =
     bnd (os_path_exists output_dir) (\<lambda>ex.
       if \<not> ex then
         seq (os_makedirs output_dir)
             (logging_info (''Initialized local data directory: '' @ output_dir))
       else return ())"

text \<open>Line 59: the list comprehension over the directory listing.\<close>

definition mat_files :: "string list \<Rightarrow> string list" where
  "mat_files listing = filter (\<lambda>f. endswith f ''.mat'') listing"

text \<open>Line 60: the report, with the count and the names joined by a comma and a space.\<close>

definition audit_report :: "string list \<Rightarrow> string" where
  "audit_report ms =
     ''Available Datasets ('' @ str_nat (length ms) @ ''): '' @ join '', '' ms"

definition audit :: "string \<Rightarrow> unit action" where
  "audit output_dir =
     bnd (os_listdir output_dir) (\<lambda>listing.
       logging_info (audit_report (mat_files listing)))"

text \<open>Lines 44--61: the body of the \<open>try\<close> statement.\<close>

definition try_body :: "gdown_module \<Rightarrow> string \<Rightarrow> string \<Rightarrow> unit action" where
  "try_body gdown folder_url output_dir =
     seq (gdown_download_folder gdown folder_url output_dir False True)
    (seq (logging_info (replicate 60 CHR ''=''))
    (seq (logging_info ''Dataset synchronization complete!'')
    (seq (bnd (os_path_abspath output_dir) (\<lambda>p. logging_info (''Local Storage Path: '' @ p)))
    (seq (audit output_dir)
         (logging_info (replicate 60 CHR ''=''))))))"

text \<open>Lines 63--65: the handler of \<open>except Exception as e\<close>.\<close>

definition handler :: "exn \<Rightarrow> unit action" where
  "handler e =
     seq (logging_error (''Synchronization failed: '' @ str_exn e))
         (logging_warning
            ''Check your internet connection and verify that the GDrive folder is public.'')"

text \<open>
  \<open>try: m  except Exception as e: h e\<close>: an exception that is no instance of
  \<open>Exception\<close> passes through.
\<close>

definition try_except_Exception :: "unit action \<Rightarrow> (exn \<Rightarrow> unit action) \<Rightarrow> unit action" where
  "try_except_Exception m h =
     (\<lambda>s. case m s of
        (Return x, s') \<Rightarrow> (Return x, s')
      | (Raise e, s') \<Rightarrow> if is_Exception e then h e s' else (Raise e, s'))"

definition download_datasets :: "exn + gdown_module \<Rightarrow> string \<Rightarrow> string \<Rightarrow> unit action" where
  "download_datasets imp folder_url output_dir =
     bnd (check_dependencies imp) (\<lambda>gdown.
     seq (prepare_directory output_dir)
    (seq (logging_info ''Connecting to Google Drive remote storage...'')
    (seq (logging_info (''Remote URL: '' @ folder_url))
         (try_except_Exception (try_body gdown folder_url output_dir) handler))))"

subsection \<open>main (lines 68--92) and the process\<close>

text \<open>
  The two \<open>add_argument\<close> calls: the option string and its default. Both have
  \<open>type=str\<close>, which leaves the value as it is.
\<close>

definition default_url :: string where
  "default_url =
     ''https://drive.google.com/drive/folders/1TyiQNOuCH7zn0R55EfxM4mUwB05VsoMf?usp=drive_link''"

definition default_output :: string where
  "default_output = ''./dataset''"

definition parser_arguments :: "(string \<times> string) list" where
  "parser_arguments = [(''--url'', default_url), (''--output'', default_output)]"

record namespace =
  url :: string
  output' :: string

text \<open>
  The tokenising of the command line is argparse's own. Its outcome is the input here:
  the command line is rejected (argparse exits with status 2), it asks for the help text
  that argparse adds to every parser (status 0), or it gives each of the two declared
  options a value or leaves it out. What argparse itself writes (the usage line, the help
  text) is not recorded in the trace.
\<close>

datatype cmdline =
    Rejected
  | Help
  | Options "string option" "string option"

definition option_value :: "string \<Rightarrow> string option \<Rightarrow> string" where
  "option_value name given =
     (case given of
        Some v \<Rightarrow> v
      | None \<Rightarrow> (case map_of parser_arguments name of Some d \<Rightarrow> d | None \<Rightarrow> []))"

definition parse_args :: "cmdline \<Rightarrow> namespace action" where
  "parse_args cl =
     (case cl of
        Rejected \<Rightarrow> sys_exit 2
      | Help \<Rightarrow> sys_exit 0
      | Options u out \<Rightarrow>
          return \<lparr>url = option_value ''--url'' u, output' = option_value ''--output'' out\<rparr>)"

definition main :: "cmdline \<Rightarrow> exn + gdown_module \<Rightarrow> unit action" where
  "main cl imp =
     bnd (parse_args cl) (\<lambda>args. download_datasets imp (url args) (output' args))"

text \<open>
  The exit status of the interpreter after \<open>main()\<close>: 0 when it returns, the code of
  an uncaught SystemExit (the operating system keeps its low eight bits), 130 after an
  uncaught KeyboardInterrupt, 1 after any other uncaught exception.
\<close>

fun exit_status :: "unit result \<Rightarrow> nat" where
  "exit_status (Return u) = 0"
| "exit_status (Raise (SystemExit c)) = c mod 256"
| "exit_status (Raise KeyboardInterrupt) = 130"
| "exit_status (Raise e) = 1"

text \<open>The events a run adds to the trace.\<close>

definition events_of :: "'a action \<Rightarrow> state \<Rightarrow> event list" where
  "events_of m s = drop (length (trace s)) (trace (snd (m s)))"

subsection \<open>Reading a trace\<close>

fun is_makedirs_call :: "event \<Rightarrow> bool" where
  "is_makedirs_call (Call_makedirs d) = True"
| "is_makedirs_call ev = False"

fun is_download_call :: "event \<Rightarrow> bool" where
  "is_download_call (Call_download_folder u d q r) = True"
| "is_download_call ev = False"

fun is_listdir_call :: "event \<Rightarrow> bool" where
  "is_listdir_call (Call_listdir d) = True"
| "is_listdir_call ev = False"

text \<open>The record of line 38 and the record of line 60, recognised by their fixed beginnings.\<close>

fun is_initialized_message :: "event \<Rightarrow> bool" where
  "is_initialized_message (Log lvl m) =
     (lvl = INFO \<and> take 34 m = ''Initialized local data directory: '')"
| "is_initialized_message ev = False"

fun is_audit_report :: "event \<Rightarrow> bool" where
  "is_audit_report (Log lvl m) = (lvl = INFO \<and> take 20 m = ''Available Datasets ('')"
| "is_audit_report ev = False"

subsection \<open>Example environments\<close>

text \<open>
  A home directory with a regular file \<open>notes.txt\<close> and a directory \<open>data\<close> that
  holds \<open>old.mat\<close>; \<open>./dataset\<close> does not exist yet.
\<close>

definition example_state :: state where
  "example_state =
     \<lparr>files = [([''home''], Dir), ([''home'', ''notes.txt''], File),
               ([''home'', ''data''], Dir), ([''home'', ''data'', ''old.mat''], File)],
      cwd = [''home''],
      trace = []\<rparr>"

text \<open>A delegate that stores three files in the destination and returns.\<close>

definition gdown_succeeding :: gdown_module where
  "gdown_succeeding =
     \<lparr>download_folder = (\<lambda>u out q r fs.
        (None, fs @ [(resolve [''home''] out @ [''a.mat''], File),
                     (resolve [''home''] out @ [''b.mat''], File),
                     (resolve [''home''] out @ [''notes.txt''], File)]))\<rparr>"

text \<open>A delegate that raises an instance of \<open>Exception\<close> before it stores anything.\<close>

definition gdown_failing :: gdown_module where
  "gdown_failing =
     \<lparr>download_folder = (\<lambda>u out q r fs. (Some (Exception_other ''boom''), fs))\<rparr>"

text \<open>A download that the user interrupts from the keyboard.\<close>

definition gdown_interrupted :: gdown_module where
  "gdown_interrupted =
     \<lparr>download_folder = (\<lambda>u out q r fs. (Some KeyboardInterrupt, fs))\<rparr>"

text \<open>A delegate that finds nothing to store and returns.\<close>

definition gdown_idle :: gdown_module where
  "gdown_idle = \<lparr>download_folder = (\<lambda>u out q r fs. (None, fs))\<rparr>"

text \<open>The example state after \<open>./dataset\<close> has been created.\<close>

definition prepared_state :: state where
  "prepared_state =
     \<lparr>files = [([''home''], Dir), ([''home'', ''notes.txt''], File),
               ([''home'', ''data''], Dir), ([''home'', ''data'', ''old.mat''], File),
               ([''home'', ''dataset''], Dir)],
      cwd = [''home''],
      trace = [Call_makedirs ''./dataset'',
               Log INFO ''Initialized local data directory: ./dataset'']\<rparr>"


section \<open>Properties\<close>

subsection \<open>Basic facts\<close>

lemma endswith_iff: "endswith s suf \<longleftrightarrow> (\<exists>stem. s = stem @ suf)"
proof
  assume "endswith s suf"
  then have "s = take (length s - length suf) s @ suf"
    by (metis append_take_drop_id endswith_def)
  then show "\<exists>stem. s = stem @ suf" ..
next
  assume "\<exists>stem. s = stem @ suf"
  then show "endswith s suf"
    by (auto simp: endswith_def)
qed

lemmas monad_defs = bnd_def seq_def return_def raise_def emit_def logging_info_def
  logging_warning_def logging_error_def print_def sys_exit_def

lemmas path_defs = resolve_def split_def isabs_def node_at_def path_exists_def ancestors_def

subsection \<open>The outcomes of the preparation step\<close>

lemma prepare_directory_existing:
  "path_exists (files s) (cwd s) d \<Longrightarrow> prepare_directory d s = (Return (), s)"
  by (simp add: prepare_directory_def os_path_exists_def monad_defs)

lemma prepare_directory_refused:
  "\<not> path_exists (files s) (cwd s) d \<Longrightarrow> makedirs (files s) (cwd s) d = Inl e \<Longrightarrow>
     prepare_directory d s = (Raise e, s\<lparr>trace := trace s @ [Call_makedirs d]\<rparr>)"
  by (simp add: prepare_directory_def os_path_exists_def os_makedirs_def monad_defs)

lemma prepare_directory_created:
  "\<not> path_exists (files s) (cwd s) d \<Longrightarrow> makedirs (files s) (cwd s) d = Inr fs' \<Longrightarrow>
     prepare_directory d s =
       (Return (), s\<lparr>files := fs',
                      trace := trace s @ [Call_makedirs d,
                        Log INFO (''Initialized local data directory: '' @ d)]\<rparr>)"
  by (simp add: prepare_directory_def os_path_exists_def os_makedirs_def monad_defs)

lemma listdir_raises_Exception: "listdir fs wd d = Inl e \<Longrightarrow> is_Exception e"
  by (auto simp: listdir_def Let_def split: if_splits option.splits kind.splits)

lemma makedirs_raises_Exception: "makedirs fs wd d = Inl e \<Longrightarrow> is_Exception e"
  by (auto simp: makedirs_def Let_def split: if_splits)


lemma prepare_directory_outcomes:
  "prepare_directory d s = (Return (), s)
   \<or> (\<exists>e. prepare_directory d s = (Raise e, s\<lparr>trace := trace s @ [Call_makedirs d]\<rparr>)
          \<and> makedirs (files s) (cwd s) d = Inl e \<and> \<not> path_exists (files s) (cwd s) d)
   \<or> (\<exists>fs'. prepare_directory d s =
          (Return (), s\<lparr>files := fs', trace := trace s @ [Call_makedirs d,
             Log INFO (''Initialized local data directory: '' @ d)]\<rparr>)
          \<and> makedirs (files s) (cwd s) d = Inr fs' \<and> \<not> path_exists (files s) (cwd s) d)"
proof (cases "path_exists (files s) (cwd s) d")
  case True
  then show ?thesis by (simp add: prepare_directory_existing)
next
  case False
  then show ?thesis
    by (cases "makedirs (files s) (cwd s) d")
       (simp_all add: prepare_directory_refused prepare_directory_created)
qed




lemma prepare_example: "prepare_directory ''./dataset'' example_state = (Return (), prepared_state)"
  by (simp add: prepare_directory_def os_path_exists_def os_makedirs_def makedirs_def
      example_state_def prepared_state_def path_defs monad_defs Let_def)

subsection \<open>The outcomes of download\_datasets\<close>

lemma download_datasets_import_refused:
  "is_ImportError e \<Longrightarrow>
   download_datasets (Inl e) u d s =
     (Raise (SystemExit 1),
      s\<lparr>trace := trace s @
         [Log ERROR ''Required dependency 'gdown' is not installed.'',
          Print ''\<newline>Fix: Please install it using the following command:'',
          Print ''    pip install gdown\<newline>'']\<rparr>)"
  by (simp add: download_datasets_def check_dependencies_def monad_defs)

lemma download_datasets_import_raises:
  "\<not> is_ImportError e \<Longrightarrow> download_datasets (Inl e) u d s = (Raise e, s)"
  by (simp add: download_datasets_def check_dependencies_def monad_defs)

lemma download_datasets_prepare_raises:
  "prepare_directory d s = (Raise e, s1) \<Longrightarrow>
   download_datasets (Inr g) u d s = (Raise e, s1)"
  by (simp add: download_datasets_def check_dependencies_def monad_defs)

lemma download_datasets_delegate_caught:
  "prepare_directory d s = (Return (), s1) \<Longrightarrow>
   download_folder g u d False True (files s1) = (Some e, fs') \<Longrightarrow>
   is_Exception e \<Longrightarrow>
   download_datasets (Inr g) u d s =
     (Return (),
      s1\<lparr>files := fs', trace := trace s1 @
         [Log INFO ''Connecting to Google Drive remote storage...'',
          Log INFO (''Remote URL: '' @ u),
          Call_download_folder u d False True,
          Log ERROR (''Synchronization failed: '' @ str_exn e),
          Log WARNING
            ''Check your internet connection and verify that the GDrive folder is public.'']\<rparr>)"
  by (simp add: download_datasets_def check_dependencies_def try_except_Exception_def
      try_body_def gdown_download_folder_def handler_def monad_defs)

lemma download_datasets_delegate_escapes:
  "prepare_directory d s = (Return (), s1) \<Longrightarrow>
   download_folder g u d False True (files s1) = (Some e, fs') \<Longrightarrow>
   \<not> is_Exception e \<Longrightarrow>
   download_datasets (Inr g) u d s =
     (Raise e,
      s1\<lparr>files := fs', trace := trace s1 @
         [Log INFO ''Connecting to Google Drive remote storage...'',
          Log INFO (''Remote URL: '' @ u),
          Call_download_folder u d False True]\<rparr>)"
  by (simp add: download_datasets_def check_dependencies_def try_except_Exception_def
      try_body_def gdown_download_folder_def handler_def monad_defs)

lemma download_datasets_audit_raises:
  "prepare_directory d s = (Return (), s1) \<Longrightarrow>
   download_folder g u d False True (files s1) = (None, fs') \<Longrightarrow>
   listdir fs' (cwd s1) d = Inl e \<Longrightarrow>
   download_datasets (Inr g) u d s =
     (Return (),
      s1\<lparr>files := fs', trace := trace s1 @
         [Log INFO ''Connecting to Google Drive remote storage...'',
          Log INFO (''Remote URL: '' @ u),
          Call_download_folder u d False True,
          Log INFO (replicate 60 CHR ''=''),
          Log INFO ''Dataset synchronization complete!'',
          Log INFO (''Local Storage Path: '' @ abspath (cwd s1) d),
          Call_listdir d,
          Log ERROR (''Synchronization failed: '' @ str_exn e),
          Log WARNING
            ''Check your internet connection and verify that the GDrive folder is public.'']\<rparr>)"
  using listdir_raises_Exception [of fs' "cwd s1" d e]
  by (simp add: download_datasets_def check_dependencies_def try_except_Exception_def
      try_body_def gdown_download_folder_def handler_def audit_def os_listdir_def
      os_path_abspath_def monad_defs)

lemma download_datasets_completes:
  "prepare_directory d s = (Return (), s1) \<Longrightarrow>
   download_folder g u d False True (files s1) = (None, fs') \<Longrightarrow>
   listdir fs' (cwd s1) d = Inr names \<Longrightarrow>
   download_datasets (Inr g) u d s =
     (Return (),
      s1\<lparr>files := fs', trace := trace s1 @
         [Log INFO ''Connecting to Google Drive remote storage...'',
          Log INFO (''Remote URL: '' @ u),
          Call_download_folder u d False True,
          Log INFO (replicate 60 CHR ''=''),
          Log INFO ''Dataset synchronization complete!'',
          Log INFO (''Local Storage Path: '' @ abspath (cwd s1) d),
          Call_listdir d,
          Log INFO (audit_report (mat_files names)),
          Log INFO (replicate 60 CHR ''='')]\<rparr>)"
  by (simp add: download_datasets_def check_dependencies_def try_except_Exception_def
      try_body_def gdown_download_folder_def handler_def audit_def os_listdir_def
      os_path_abspath_def monad_defs)

subsection \<open>The events of a run\<close>

lemma rule_60: "replicate 60 CHR ''='' =
  ''============================================================''"
  by (simp add: eval_nat_numeral)

lemma events_of_eq:
  "snd (m s) = s1 \<Longrightarrow> trace s1 = trace s @ evs \<Longrightarrow> events_of m s = evs"
  by (simp add: events_of_def)

lemma prepare_directory_events:
  assumes "prepare_directory d s = (r, s1)"
  shows "trace s1 = trace s @ events_of (prepare_directory d) s"
    and "events_of (prepare_directory d) s = []
         \<or> events_of (prepare_directory d) s = [Call_makedirs d]
         \<or> events_of (prepare_directory d) s =
             [Call_makedirs d, Log INFO (''Initialized local data directory: '' @ d)]"
  using assms prepare_directory_outcomes [of d s]
  by (auto simp: events_of_def)

lemma prepare_directory_silent_iff:
  "path_exists (files s) (cwd s) d \<longleftrightarrow> events_of (prepare_directory d) s = []"
proof (cases "path_exists (files s) (cwd s) d")
  case True
  then show ?thesis by (simp add: prepare_directory_existing events_of_def)
next
  case False
  then show ?thesis
    by (cases "makedirs (files s) (cwd s) d")
       (simp_all add: prepare_directory_refused prepare_directory_created events_of_def)
qed

lemma download_datasets_events:
  assumes prep: "prepare_directory d s = (Return (), s1)"
  shows "\<exists>rest. events_of (download_datasets (Inr g) u d) s =
           events_of (prepare_directory d) s @
           [Log INFO ''Connecting to Google Drive remote storage...'',
            Log INFO (''Remote URL: '' @ u),
            Call_download_folder u d False True] @ rest
         \<and> \<not> list_ex is_download_call rest
         \<and> \<not> list_ex is_makedirs_call rest
         \<and> \<not> list_ex is_initialized_message rest
         \<and> files (snd (download_datasets (Inr g) u d s)) =
             snd (download_folder g u d False True (files s1))"
proof -
  note tr = prepare_directory_events(1) [OF prep]
  obtain r fs' where dl: "download_folder g u d False True (files s1) = (r, fs')"
    by (cases "download_folder g u d False True (files s1)")
  show ?thesis
  proof (cases r)
    case (Some e)
    show ?thesis
    proof (cases "is_Exception e")
      case True
      from download_datasets_delegate_caught [OF prep dl [unfolded Some] True] tr
      show ?thesis by (simp add: events_of_def dl)
    next
      case False
      from download_datasets_delegate_escapes [OF prep dl [unfolded Some] False] tr
      show ?thesis by (simp add: events_of_def dl)
    qed
  next
    case None
    show ?thesis
    proof (cases "listdir fs' (cwd s1) d")
      case (Inl e)
      from download_datasets_audit_raises [OF prep dl [unfolded None] Inl] tr
      show ?thesis by (simp add: events_of_def dl rule_60)
    next
      case (Inr names)
      from download_datasets_completes [OF prep dl [unfolded None] Inr] tr
      show ?thesis by (simp add: events_of_def dl rule_60 audit_report_def)
    qed
  qed
qed

lemma import_failure_events:
  "events_of (download_datasets (Inl e) u d) s = [] \<or>
   events_of (download_datasets (Inl e) u d) s =
     [Log ERROR ''Required dependency 'gdown' is not installed.'',
      Print ''\<newline>Fix: Please install it using the following command:'',
      Print ''    pip install gdown\<newline>'']"
  by (cases "is_ImportError e")
     (simp_all add: download_datasets_import_refused download_datasets_import_raises events_of_def)

subsection \<open>The audit, and the example run\<close>






lemma main_options:
  "main (Options u out) imp s =
     download_datasets imp (option_value ''--url'' u) (option_value ''--output'' out) s"
  by (simp add: main_def parse_args_def monad_defs)

lemma example_defaults:
  "option_value ''--url'' None = default_url" "option_value ''--output'' None = ''./dataset''"
  by (simp_all add: option_value_def parser_arguments_def default_output_def)

lemma example_failing:
  "download_folder gdown_failing default_url ''./dataset'' False True (files prepared_state)
     = (Some (Exception_other ''boom''), files prepared_state)"
  by (simp add: gdown_failing_def)

lemma example_interrupted:
  "download_folder gdown_interrupted default_url ''./dataset'' False True (files prepared_state)
     = (Some KeyboardInterrupt, files prepared_state)"
  by (simp add: gdown_interrupted_def)

lemma example_idle:
  "download_folder gdown_idle default_url ''notes.txt'' False True (files example_state)
     = (None, files example_state)"
  by (simp add: gdown_idle_def)

lemma example_notes_prepare:
  "prepare_directory ''notes.txt'' example_state = (Return (), example_state)"
  by (simp add: prepare_directory_existing example_state_def path_defs)

lemma example_notes_listing:
  "listdir (files example_state) (cwd example_state) ''notes.txt''
     = Inl (OSError ''[Errno 20] Not a directory'')"
  by (simp add: listdir_def example_state_def path_defs)

lemma example_blocked_prepare:
  "prepare_directory ''notes.txt/sub'' example_state =
     (Raise (OSError ''[Errno 20] Not a directory''),
      example_state\<lparr>trace := trace example_state @ [Call_makedirs ''notes.txt/sub'']\<rparr>)"
  by (simp add: prepare_directory_def os_path_exists_def os_makedirs_def makedirs_def
      example_state_def path_defs monad_defs Let_def)

subsection \<open>The recognisers of the trace are exact\<close>

text \<open>
  The two records are recognised whatever the directory and the listing are, a run
  that completes does hold the listing call and the report, and a directory that is
  created is announced.
\<close>

lemma initialized_message_recognised:
  "is_initialized_message (Log INFO (''Initialized local data directory: '' @ d))"
  by simp

lemma audit_report_recognised: "is_audit_report (Log INFO (audit_report ms))"
  by (simp add: audit_report_def)

lemma completed_run_has_audit:
  assumes "prepare_directory d s = (Return (), s1)"
    and "download_folder g u d False True (files s1) = (None, fs')"
    and "listdir fs' (cwd s1) d = Inr names"
  shows "list_ex is_listdir_call (events_of (download_datasets (Inr g) u d) s)"
    and "list_ex is_audit_report (events_of (download_datasets (Inr g) u d) s)"
  using download_datasets_completes [OF assms] prepare_directory_events(1) [OF assms(1)]
  by (simp_all add: events_of_def audit_report_def)

lemma created_directory_is_announced:
  assumes "\<not> path_exists (files s) (cwd s) d" and "prepare_directory d s = (Return (), s1)"
  shows "events_of (prepare_directory d) s =
           [Call_makedirs d, Log INFO (''Initialized local data directory: '' @ d)]"
proof (cases "makedirs (files s) (cwd s) d")
  case (Inl e)
  with assms show ?thesis by (simp add: prepare_directory_refused)
next
  case (Inr fs')
  with assms(1) show ?thesis by (simp add: prepare_directory_created events_of_def)
qed

section \<open>The claims\<close>

subsection \<open>C3: the dependency check\<close>

text \<open>
  C3. Whenever \<open>import gdown\<close> raises an ImportError, \<open>check_dependencies\<close> logs the
  error that names the dependency \<open>gdown\<close>, prints the instruction that holds the
  command \<open>pip install gdown\<close>, and raises \<open>SystemExit(1)\<close>, with which the process
  ends with exit status 1. When the import succeeds it returns the module and leaves
  the state as it was.
\<close>

theorem check_dependencies_contract:
  "(is_ImportError e \<longrightarrow>
      check_dependencies (Inl e) s =
        (Raise (SystemExit 1),
         s\<lparr>trace := trace s @
            [Log ERROR ''Required dependency 'gdown' is not installed.'',
             Print ''\<newline>Fix: Please install it using the following command:'',
             Print ''    pip install gdown\<newline>'']\<rparr>)
      \<and> ''Required dependency 'gdown' is not installed.''
            = (''Required dependency '' @ [CHR 0x27]) @ ''gdown''
                @ ([CHR 0x27] @ '' is not installed.'')
      \<and> ''    pip install gdown\<newline>'' = ''    '' @ ''pip install gdown'' @ ''\<newline>''
      \<and> exit_status (fst (main (Options u out) (Inl e) s)) = 1)
   \<and> check_dependencies (Inr gdown) s = (Return gdown, s)"
  by (simp add: check_dependencies_def main_def parse_args_def download_datasets_def monad_defs)

theorem check_dependencies_contract_witness:
  "is_ImportError (ImportError ''No module named gdown'')
   \<and> check_dependencies (Inl (ImportError ''No module named gdown'')) example_state =
        (Raise (SystemExit 1),
         example_state\<lparr>trace := trace example_state @
            [Log ERROR ''Required dependency 'gdown' is not installed.'',
             Print ''\<newline>Fix: Please install it using the following command:'',
             Print ''    pip install gdown\<newline>'']\<rparr>)
   \<and> exit_status (fst (main (Options None None) (Inl (ImportError ''No module named gdown''))
         example_state)) = 1
   \<and> check_dependencies (Inr gdown_succeeding) example_state =
        (Return gdown_succeeding, example_state)"
  using check_dependencies_contract
    [of "ImportError ''No module named gdown''" example_state None None gdown_succeeding]
  by simp

subsection \<open>C7: the command line\<close>


subsection \<open>C9: the extension filter\<close>

text \<open>
  C9. The filter of the audit is a case-sensitive suffix test against \<open>.mat\<close>: a name
  of the listing is kept (listed, and so counted) if and only if it ends with \<open>.mat\<close>.
  \<open>A.MAT\<close> and \<open>x.Mat\<close> are dropped; the name \<open>.mat\<close> itself is kept.
\<close>

theorem mat_filter_case_sensitive_suffix:
  "(f \<in> set (mat_files listing) \<longleftrightarrow> f \<in> set listing \<and> (\<exists>stem. f = stem @ ''.mat''))
   \<and> mat_files listing = filter (\<lambda>f. \<exists>stem. f = stem @ ''.mat'') listing
   \<and> mat_files [''A.MAT''] = []
   \<and> mat_files [''x.Mat''] = []
   \<and> mat_files [''.mat''] = [''.mat'']"
proof -
  have "mat_files listing = filter (\<lambda>f. \<exists>stem. f = stem @ ''.mat'') listing"
    by (simp add: mat_files_def endswith_iff)
  moreover have "mat_files [''A.MAT''] = []" "mat_files [''x.Mat''] = []"
    "mat_files [''.mat''] = [''.mat'']"
    by (simp_all add: mat_files_def endswith_def)
  ultimately show ?thesis by simp
qed

subsection \<open>C5: the preparation step\<close>




subsection \<open>C6: the call of the delegate\<close>

text \<open>
  C6. Whenever a run reaches the folder-sync step (the module was imported and the
  preparation returned), \<open>gdown.download_folder\<close> is called exactly once, with the
  url and the output directory that \<open>download_datasets\<close> received, \<open>quiet=False\<close>
  and \<open>remaining_ok=True\<close>, and the file system after the run is the one this call
  leaves behind. No run calls it twice or with other arguments.
\<close>

theorem folder_sync_calls_delegate_once:
  "(prepare_directory output_dir s = (Return (), s1) \<longrightarrow>
      filter is_download_call (events_of (download_datasets (Inr gdown) folder_url output_dir) s)
        = [Call_download_folder folder_url output_dir False True]
      \<and> files (snd (download_datasets (Inr gdown) folder_url output_dir s))
        = snd (download_folder gdown folder_url output_dir False True (files s1)))
   \<and> (filter is_download_call (events_of (download_datasets imp folder_url output_dir) s) = []
      \<or> filter is_download_call (events_of (download_datasets imp folder_url output_dir) s)
        = [Call_download_folder folder_url output_dir False True])"
proof -
  have reached: "filter is_download_call
        (events_of (download_datasets (Inr g) folder_url output_dir) s)
        = [Call_download_folder folder_url output_dir False True]
      \<and> files (snd (download_datasets (Inr g) folder_url output_dir s))
        = snd (download_folder g folder_url output_dir False True (files t))"
    if prep: "prepare_directory output_dir s = (Return (), t)" for g t
  proof -
    from download_datasets_events [OF prep, of g folder_url]
    obtain rest where ev: "events_of (download_datasets (Inr g) folder_url output_dir) s =
           events_of (prepare_directory output_dir) s @
           [Log INFO ''Connecting to Google Drive remote storage...'',
            Log INFO (''Remote URL: '' @ folder_url),
            Call_download_folder folder_url output_dir False True] @ rest"
      and rest: "\<not> list_ex is_download_call rest"
      and fs: "files (snd (download_datasets (Inr g) folder_url output_dir s)) =
             snd (download_folder g folder_url output_dir False True (files t))"
      by blast
    from rest have "filter is_download_call rest = []"
      by (simp add: list_ex_iff filter_empty_conv)
    moreover from prepare_directory_events(2) [OF prep]
    have "filter is_download_call (events_of (prepare_directory output_dir) s) = []"
      by auto
    ultimately show ?thesis using ev fs by simp
  qed
  have any: "filter is_download_call (events_of (download_datasets imp folder_url output_dir) s) = []
      \<or> filter is_download_call (events_of (download_datasets imp folder_url output_dir) s)
        = [Call_download_folder folder_url output_dir False True]"
  proof (cases imp)
    case (Inl e)
    with import_failure_events [of e folder_url output_dir s] show ?thesis by auto
  next
    case (Inr g)
    obtain r t where pr: "prepare_directory output_dir s = (r, t)"
      by (cases "prepare_directory output_dir s")
    show ?thesis
    proof (cases r)
      case (Return x)
      with pr reached [of t g] Inr show ?thesis by simp
    next
      case (Raise e)
      with pr have dd: "download_datasets (Inr g) folder_url output_dir s = (Raise e, t)"
        by (simp add: download_datasets_prepare_raises)
      from prepare_directory_events [OF pr]
      have "filter is_download_call (drop (length (trace s)) (trace t)) = []"
        by (auto simp: events_of_def)
      with dd Inr show ?thesis by (simp add: events_of_def)
    qed
  qed
  from reached [of s1 gdown] any show ?thesis by blast
qed

theorem folder_sync_calls_delegate_once_witness:
  "prepare_directory ''./dataset'' example_state = (Return (), prepared_state)
   \<and> filter is_download_call
        (events_of (download_datasets (Inr gdown_failing) default_url ''./dataset'') example_state)
        = [Call_download_folder default_url ''./dataset'' False True]"
  using folder_sync_calls_delegate_once
    [of "''./dataset''" example_state prepared_state gdown_failing default_url "Inr gdown_failing"]
    prepare_example
  by simp

subsection \<open>C10: an existing output directory\<close>

text \<open>
  C10. When the output path exists at the time \<open>download_datasets\<close> is called, the
  preparation step returns the state unchanged, \<open>os.makedirs\<close> is not invoked anywhere
  in the run and the record "Initialized local data directory" is not emitted. So both
  occur only when the path was absent.
\<close>

theorem existing_directory_untouched:
  "path_exists (files s) (cwd s) output_dir \<longrightarrow>
     prepare_directory output_dir s = (Return (), s)
     \<and> \<not> list_ex is_makedirs_call (events_of (download_datasets imp folder_url output_dir) s)
     \<and> \<not> list_ex is_initialized_message
           (events_of (download_datasets imp folder_url output_dir) s)"
proof
  assume ex: "path_exists (files s) (cwd s) output_dir"
  then have prep: "prepare_directory output_dir s = (Return (), s)"
    by (rule prepare_directory_existing)
  from ex have silent: "events_of (prepare_directory output_dir) s = []"
    by (simp add: prepare_directory_silent_iff)
  have "\<not> list_ex is_makedirs_call (events_of (download_datasets imp folder_url output_dir) s)
     \<and> \<not> list_ex is_initialized_message
           (events_of (download_datasets imp folder_url output_dir) s)"
  proof (cases imp)
    case (Inl e)
    with import_failure_events [of e folder_url output_dir s] show ?thesis by auto
  next
    case (Inr g)
    from download_datasets_events [OF prep, of g folder_url] silent Inr
    show ?thesis by auto
  qed
  with prep show "prepare_directory output_dir s = (Return (), s)
     \<and> \<not> list_ex is_makedirs_call (events_of (download_datasets imp folder_url output_dir) s)
     \<and> \<not> list_ex is_initialized_message
           (events_of (download_datasets imp folder_url output_dir) s)" by simp
qed

theorem existing_directory_untouched_witness:
  "path_exists (files example_state) (cwd example_state) ''data''
   \<and> prepare_directory ''data'' example_state = (Return (), example_state)
   \<and> \<not> list_ex is_makedirs_call
         (events_of (download_datasets (Inr gdown_succeeding) default_url ''data'') example_state)
   \<and> \<not> list_ex is_initialized_message
         (events_of (download_datasets (Inr gdown_succeeding) default_url ''data'') example_state)"
  using existing_directory_untouched
    [of example_state "''data''" "Inr gdown_succeeding" default_url]
  by (simp add: example_state_def path_defs)

subsection \<open>C4: the audit\<close>



subsection \<open>C1: a failing sync and the audit\<close>

text \<open>
  C1, as stated, lets the audit run after the delegate has raised. In the script the
  audit (lines 58--60) is part of the same \<open>try\<close> body as the call of the delegate:
  an exception of the delegate leaves the body before the listing is taken. The run
  below completes, and its trace holds neither a call of \<open>os.listdir\<close> nor a report.
\<close>

theorem audit_after_failed_sync_counterexample:
  "download_folder gdown_failing default_url ''./dataset'' False True (files prepared_state)
     = (Some (Exception_other ''boom''), files prepared_state)
   \<and> fst (main (Options None None) (Inr gdown_failing) example_state) = Return ()
   \<and> events_of (main (Options None None) (Inr gdown_failing)) example_state =
       [Call_makedirs ''./dataset'',
        Log INFO ''Initialized local data directory: ./dataset'',
        Log INFO ''Connecting to Google Drive remote storage...'',
        Log INFO (''Remote URL: '' @ default_url),
        Call_download_folder default_url ''./dataset'' False True,
        Log ERROR ''Synchronization failed: boom'',
        Log WARNING
          ''Check your internet connection and verify that the GDrive folder is public.'']
   \<and> \<not> list_ex is_listdir_call
         (events_of (main (Options None None) (Inr gdown_failing)) example_state)
   \<and> \<not> list_ex is_audit_report
         (events_of (main (Options None None) (Inr gdown_failing)) example_state)"
proof -
  have run: "main (Options None None) (Inr gdown_failing) example_state =
     (Return (), prepared_state\<lparr>files := files prepared_state, trace := trace prepared_state @
         [Log INFO ''Connecting to Google Drive remote storage...'',
          Log INFO (''Remote URL: '' @ default_url),
          Call_download_folder default_url ''./dataset'' False True,
          Log ERROR (''Synchronization failed: '' @ str_exn (Exception_other ''boom'')),
          Log WARNING
            ''Check your internet connection and verify that the GDrive folder is public.'']\<rparr>)"
    unfolding main_options example_defaults
    by (rule download_datasets_delegate_caught [OF prepare_example example_failing]) simp
  show ?thesis
    by (simp add: run example_failing events_of_def)
       (simp add: prepared_state_def example_state_def)
qed

text \<open>
  C1, amended. For every run in which the delegate raises an exception of class
  \<open>Exception\<close> (the module was imported and the preparation returned), the run
  completes with exit status 0, and the audit does not execute: the run takes no
  directory listing and logs no report of \<open>.mat\<close> files.
\<close>

theorem failed_sync_completes_without_audit:
  "prepare_directory (option_value ''--output'' out) s = (Return (), s1)
   \<and> download_folder gdown (option_value ''--url'' u) (option_value ''--output'' out)
         False True (files s1) = (Some e, fs')
   \<and> is_Exception e \<longrightarrow>
     exit_status (fst (main (Options u out) (Inr gdown) s)) = 0
     \<and> \<not> list_ex is_listdir_call (events_of (main (Options u out) (Inr gdown)) s)
     \<and> \<not> list_ex is_audit_report (events_of (main (Options u out) (Inr gdown)) s)"
proof
  let ?d = "option_value ''--output'' out" and ?u = "option_value ''--url'' u"
  assume "prepare_directory ?d s = (Return (), s1)
   \<and> download_folder gdown ?u ?d False True (files s1) = (Some e, fs') \<and> is_Exception e"
  then have prep: "prepare_directory ?d s = (Return (), s1)"
    and dl: "download_folder gdown ?u ?d False True (files s1) = (Some e, fs')"
    and exc: "is_Exception e" by simp_all
  have main: "main (Options u out) (Inr gdown) = download_datasets (Inr gdown) ?u ?d"
    by (rule ext) (simp add: main_options)
  from prepare_directory_events [OF prep]
  have "\<not> list_ex is_listdir_call (events_of (prepare_directory ?d) s)"
    and "\<not> list_ex is_audit_report (events_of (prepare_directory ?d) s)"
    and "trace s1 = trace s @ events_of (prepare_directory ?d) s"
    by auto
  with download_datasets_delegate_caught [OF prep dl exc]
  show "exit_status (fst (main (Options u out) (Inr gdown) s)) = 0
     \<and> \<not> list_ex is_listdir_call (events_of (main (Options u out) (Inr gdown)) s)
     \<and> \<not> list_ex is_audit_report (events_of (main (Options u out) (Inr gdown)) s)"
    by (simp add: main events_of_def)
qed

theorem failed_sync_completes_without_audit_witness:
  "prepare_directory (option_value ''--output'' None) example_state = (Return (), prepared_state)
   \<and> download_folder gdown_failing (option_value ''--url'' None) (option_value ''--output'' None)
         False True (files prepared_state) = (Some (Exception_other ''boom''), files prepared_state)
   \<and> is_Exception (Exception_other ''boom'')
   \<and> exit_status (fst (main (Options None None) (Inr gdown_failing) example_state)) = 0
   \<and> \<not> list_ex is_listdir_call
         (events_of (main (Options None None) (Inr gdown_failing)) example_state)
   \<and> \<not> list_ex is_audit_report
         (events_of (main (Options None None) (Inr gdown_failing)) example_state)"
  using failed_sync_completes_without_audit
    [of None example_state prepared_state gdown_failing None "Exception_other ''boom''"
        "files prepared_state"]
    prepare_example example_failing
  by (simp add: example_defaults)

subsection \<open>C2: exceptions of the delegate\<close>

text \<open>
  C2, as stated, speaks of every exception of the delegate, and names the missing
  module as the only cause of a non-zero exit. The handler is \<open>except Exception\<close>: a
  KeyboardInterrupt during the download is not an instance of \<open>Exception\<close> and leaves
  \<open>download_datasets\<close>, with the module present. And a failing \<open>os.makedirs\<close>, which
  is outside the \<open>try\<close> statement, ends the process with status 1.
\<close>

theorem delegate_exception_counterexample:
  "download_folder gdown_interrupted default_url ''./dataset'' False True (files prepared_state)
     = (Some KeyboardInterrupt, files prepared_state)
   \<and> fst (main (Options None None) (Inr gdown_interrupted) example_state)
       = Raise KeyboardInterrupt
   \<and> exit_status (fst (main (Options None None) (Inr gdown_interrupted) example_state)) = 130
   \<and> exit_status (fst (main (Options None (Some ''notes.txt/sub'')) (Inr gdown_succeeding)
         example_state)) = 1"
proof -
  have "fst (main (Options None None) (Inr gdown_interrupted) example_state)
       = Raise KeyboardInterrupt"
    unfolding main_options example_defaults
    using download_datasets_delegate_escapes [OF prepare_example example_interrupted]
    by simp
  moreover have "fst (main (Options None (Some ''notes.txt/sub'')) (Inr gdown_succeeding)
         example_state) = Raise (OSError ''[Errno 20] Not a directory'')"
    unfolding main_options
    using download_datasets_prepare_raises [OF example_blocked_prepare]
    by (simp add: option_value_def)
  ultimately show ?thesis by (simp add: example_interrupted)
qed

text \<open>
  C2, amended. Every exception of class \<open>Exception\<close> that the delegate raises is
  caught: the error record with the text of the exception and the warning with the
  remediation hint are logged, \<open>download_datasets\<close> returns normally and the process
  ends with status 0. An exception of the delegate outside class \<open>Exception\<close> is
  propagated. A non-zero exit status occurs only when argparse rejects the command line,
  when the import of the module raises, when the preparation raises, or when the
  delegate raises an exception outside class \<open>Exception\<close>.
\<close>

theorem delegate_exception_handling:
  "(prepare_directory output_dir s = (Return (), s1)
     \<and> download_folder gdown folder_url output_dir False True (files s1) = (Some e, fs')
     \<and> is_Exception e \<longrightarrow>
       download_datasets (Inr gdown) folder_url output_dir s =
         (Return (),
          s1\<lparr>files := fs', trace := trace s1 @
             [Log INFO ''Connecting to Google Drive remote storage...'',
              Log INFO (''Remote URL: '' @ folder_url),
              Call_download_folder folder_url output_dir False True,
              Log ERROR (''Synchronization failed: '' @ str_exn e),
              Log WARNING
                ''Check your internet connection and verify that the GDrive folder is public.'']\<rparr>)
       \<and> exit_status
            (fst (main (Options (Some folder_url) (Some output_dir)) (Inr gdown) s)) = 0)
   \<and> (prepare_directory output_dir' t = (Return (), t1)
     \<and> download_folder gdown' folder_url' output_dir' False True (files t1) = (Some b, fs'')
     \<and> \<not> is_Exception b \<longrightarrow>
       fst (download_datasets (Inr gdown') folder_url' output_dir' t) = Raise b)
   \<and> (exit_status (fst (main cl imp w)) \<noteq> 0 \<longrightarrow>
        cl = Rejected
        \<or> (\<exists>x. imp = Inl x)
        \<or> (\<exists>u out x w1. cl = Options u out
              \<and> prepare_directory (option_value ''--output'' out) w = (Raise x, w1))
        \<or> (\<exists>u out g w1 x fs1. cl = Options u out \<and> imp = Inr g
              \<and> prepare_directory (option_value ''--output'' out) w = (Return (), w1)
              \<and> download_folder g (option_value ''--url'' u) (option_value ''--output'' out)
                    False True (files w1) = (Some x, fs1)
              \<and> \<not> is_Exception x))"
proof -
  have caught: "download_datasets (Inr gdown) folder_url output_dir s =
         (Return (),
          s1\<lparr>files := fs', trace := trace s1 @
             [Log INFO ''Connecting to Google Drive remote storage...'',
              Log INFO (''Remote URL: '' @ folder_url),
              Call_download_folder folder_url output_dir False True,
              Log ERROR (''Synchronization failed: '' @ str_exn e),
              Log WARNING
                ''Check your internet connection and verify that the GDrive folder is public.'']\<rparr>)
       \<and> exit_status
            (fst (main (Options (Some folder_url) (Some output_dir)) (Inr gdown) s)) = 0"
    if "prepare_directory output_dir s = (Return (), s1)"
      and "download_folder gdown folder_url output_dir False True (files s1) = (Some e, fs')"
      and "is_Exception e"
    using download_datasets_delegate_caught [OF that]
    by (simp add: main_options option_value_def)
  have escapes: "fst (download_datasets (Inr gdown') folder_url' output_dir' t) = Raise b"
    if "prepare_directory output_dir' t = (Return (), t1)"
      and "download_folder gdown' folder_url' output_dir' False True (files t1) = (Some b, fs'')"
      and "\<not> is_Exception b"
    using download_datasets_delegate_escapes [OF that] by simp
  have only: "cl = Rejected
        \<or> (\<exists>x. imp = Inl x)
        \<or> (\<exists>u out x w1. cl = Options u out
              \<and> prepare_directory (option_value ''--output'' out) w = (Raise x, w1))
        \<or> (\<exists>u out g w1 x fs1. cl = Options u out \<and> imp = Inr g
              \<and> prepare_directory (option_value ''--output'' out) w = (Return (), w1)
              \<and> download_folder g (option_value ''--url'' u) (option_value ''--output'' out)
                    False True (files w1) = (Some x, fs1)
              \<and> \<not> is_Exception x)"
    if nz: "exit_status (fst (main cl imp w)) \<noteq> 0"
  proof (cases cl)
    case Rejected
    then show ?thesis by simp
  next
    case Help
    with nz show ?thesis by (simp add: main_def parse_args_def monad_defs)
  next
    case (Options u out)
    let ?d = "option_value ''--output'' out" and ?u = "option_value ''--url'' u"
    show ?thesis
    proof (cases imp)
      case (Inl x)
      then show ?thesis by simp
    next
      case (Inr g)
      obtain r w1 where pr: "prepare_directory ?d w = (r, w1)"
        by (cases "prepare_directory ?d w")
      show ?thesis
      proof (cases r)
        case (Raise x)
        with pr Options show ?thesis by blast
      next
        case (Return x)
        with pr have prep: "prepare_directory ?d w = (Return (), w1)" by simp
        obtain res fs1 where dl: "download_folder g ?u ?d False True (files w1) = (res, fs1)"
          by (cases "download_folder g ?u ?d False True (files w1)")
        show ?thesis
        proof (cases res)
          case None
          have "fst (download_datasets (Inr g) ?u ?d w) = Return ()"
          proof (cases "listdir fs1 (cwd w1) ?d")
            case (Inl x)
            from download_datasets_audit_raises [OF prep dl [unfolded None] Inl]
            show ?thesis by simp
          next
            case (Inr names)
            from download_datasets_completes [OF prep dl [unfolded None] Inr]
            show ?thesis by simp
          qed
          with nz Options Inr show ?thesis by (simp add: main_options)
        next
          case (Some x)
          show ?thesis
          proof (cases "is_Exception x")
            case True
            from download_datasets_delegate_caught [OF prep dl [unfolded Some] True]
            have "fst (download_datasets (Inr g) ?u ?d w) = Return ()" by simp
            with nz Options Inr show ?thesis by (simp add: main_options)
          next
            case False
            with prep dl Some Options Inr show ?thesis by blast
          qed
        qed
      qed
    qed
  qed
  from caught escapes only show ?thesis by blast
qed

theorem delegate_exception_handling_witness:
  "prepare_directory ''./dataset'' example_state = (Return (), prepared_state)
   \<and> download_folder gdown_failing default_url ''./dataset'' False True (files prepared_state)
        = (Some (Exception_other ''boom''), files prepared_state)
   \<and> is_Exception (Exception_other ''boom'')
   \<and> fst (download_datasets (Inr gdown_failing) default_url ''./dataset'' example_state)
        = Return ()
   \<and> exit_status (fst (main (Options (Some default_url) (Some ''./dataset''))
         (Inr gdown_failing) example_state)) = 0
   \<and> download_folder gdown_interrupted default_url ''./dataset'' False True
         (files prepared_state) = (Some KeyboardInterrupt, files prepared_state)
   \<and> \<not> is_Exception KeyboardInterrupt
   \<and> fst (download_datasets (Inr gdown_interrupted) default_url ''./dataset'' example_state)
        = Raise KeyboardInterrupt
   \<and> exit_status (fst (main Rejected (Inr gdown_failing) example_state)) \<noteq> 0"
  using delegate_exception_handling
    [of "''./dataset''" example_state prepared_state gdown_failing default_url
        "Exception_other ''boom''" "files prepared_state"
        "''./dataset''" example_state prepared_state gdown_interrupted default_url
        KeyboardInterrupt "files prepared_state"
        Rejected "Inr gdown_failing" example_state]
    prepare_example example_failing example_interrupted
  by (simp add: main_def parse_args_def monad_defs)

subsection \<open>C8: what the try statement covers\<close>

text \<open>
  C8, as stated, excludes every exception of class \<open>Exception\<close> once the dependency
  check has succeeded. The preparation (lines 36--38) comes before the \<open>try\<close>
  statement: with a regular file on the way to the output directory \<open>os.makedirs\<close>
  raises an OSError, which \<open>download_datasets\<close> propagates.
\<close>

theorem try_block_counterexample:
  "check_dependencies (Inr gdown_succeeding) example_state
     = (Return gdown_succeeding, example_state)
   \<and> fst (download_datasets (Inr gdown_succeeding) default_url ''notes.txt/sub'' example_state)
       = Raise (OSError ''[Errno 20] Not a directory'')
   \<and> is_Exception (OSError ''[Errno 20] Not a directory'')"
  using download_datasets_prepare_raises [OF example_blocked_prepare]
  by (simp add: check_dependencies_def monad_defs)

text \<open>
  C8, amended. Once the dependency check and the preparation have succeeded,
  \<open>download_datasets\<close> propagates no exception of class \<open>Exception\<close>. The one
  \<open>try\<close> body holds the call of the delegate and the audit: when the delegate
  returns and \<open>os.listdir\<close> raises, the exception is caught, logged as a
  synchronization failure with the remediation hint, and the function returns normally.
\<close>

theorem try_block_covers_sync_and_audit:
  "prepare_directory output_dir s = (Return (), s1) \<longrightarrow>
     (\<forall>e. fst (download_datasets (Inr gdown) folder_url output_dir s) = Raise e
           \<longrightarrow> \<not> is_Exception e)
     \<and> (download_folder gdown folder_url output_dir False True (files s1) = (None, fs')
        \<and> listdir fs' (cwd s1) output_dir = Inl x \<longrightarrow>
          download_datasets (Inr gdown) folder_url output_dir s =
            (Return (),
             s1\<lparr>files := fs', trace := trace s1 @
               [Log INFO ''Connecting to Google Drive remote storage...'',
                Log INFO (''Remote URL: '' @ folder_url),
                Call_download_folder folder_url output_dir False True,
                Log INFO (replicate 60 CHR ''=''),
                Log INFO ''Dataset synchronization complete!'',
                Log INFO (''Local Storage Path: '' @ abspath (cwd s1) output_dir),
                Call_listdir output_dir,
                Log ERROR (''Synchronization failed: '' @ str_exn x),
                Log WARNING
                  ''Check your internet connection and verify that the GDrive folder is public.'']\<rparr>))"
proof
  assume prep: "prepare_directory output_dir s = (Return (), s1)"
  obtain res fs1 where
    dl: "download_folder gdown folder_url output_dir False True (files s1) = (res, fs1)"
    by (cases "download_folder gdown folder_url output_dir False True (files s1)")
  have never: "\<not> is_Exception e"
    if raised: "fst (download_datasets (Inr gdown) folder_url output_dir s) = Raise e" for e
  proof (cases res)
    case None
    show ?thesis
    proof (cases "listdir fs1 (cwd s1) output_dir")
      case (Inl y)
      from download_datasets_audit_raises [OF prep dl [unfolded None] Inl] raised
      show ?thesis by simp
    next
      case (Inr names)
      from download_datasets_completes [OF prep dl [unfolded None] Inr] raised
      show ?thesis by simp
    qed
  next
    case (Some y)
    show ?thesis
    proof (cases "is_Exception y")
      case True
      from download_datasets_delegate_caught [OF prep dl [unfolded Some] True] raised
      show ?thesis by simp
    next
      case False
      from download_datasets_delegate_escapes [OF prep dl [unfolded Some] False] raised False
      show ?thesis by simp
    qed
  qed
  from never download_datasets_audit_raises [OF prep]
  show "(\<forall>e. fst (download_datasets (Inr gdown) folder_url output_dir s) = Raise e
           \<longrightarrow> \<not> is_Exception e)
     \<and> (download_folder gdown folder_url output_dir False True (files s1) = (None, fs')
        \<and> listdir fs' (cwd s1) output_dir = Inl x \<longrightarrow>
          download_datasets (Inr gdown) folder_url output_dir s =
            (Return (),
             s1\<lparr>files := fs', trace := trace s1 @
               [Log INFO ''Connecting to Google Drive remote storage...'',
                Log INFO (''Remote URL: '' @ folder_url),
                Call_download_folder folder_url output_dir False True,
                Log INFO (replicate 60 CHR ''=''),
                Log INFO ''Dataset synchronization complete!'',
                Log INFO (''Local Storage Path: '' @ abspath (cwd s1) output_dir),
                Call_listdir output_dir,
                Log ERROR (''Synchronization failed: '' @ str_exn x),
                Log WARNING
                  ''Check your internet connection and verify that the GDrive folder is public.'']\<rparr>))"
    by blast
qed

theorem try_block_covers_sync_and_audit_witness:
  "prepare_directory ''notes.txt'' example_state = (Return (), example_state)
   \<and> download_folder gdown_idle default_url ''notes.txt'' False True (files example_state)
       = (None, files example_state)
   \<and> listdir (files example_state) (cwd example_state) ''notes.txt''
       = Inl (OSError ''[Errno 20] Not a directory'')
   \<and> fst (download_datasets (Inr gdown_idle) default_url ''notes.txt'' example_state) = Return ()
   \<and> events_of (download_datasets (Inr gdown_idle) default_url ''notes.txt'') example_state =
       [Log INFO ''Connecting to Google Drive remote storage...'',
        Log INFO (''Remote URL: '' @ default_url),
        Call_download_folder default_url ''notes.txt'' False True,
        Log INFO (replicate 60 CHR ''=''),
        Log INFO ''Dataset synchronization complete!'',
        Log INFO ''Local Storage Path: /home/notes.txt'',
        Call_listdir ''notes.txt'',
        Log ERROR ''Synchronization failed: [Errno 20] Not a directory'',
        Log WARNING
          ''Check your internet connection and verify that the GDrive folder is public.'']"
  using try_block_covers_sync_and_audit
    [of "''notes.txt''" example_state example_state gdown_idle default_url
        "files example_state" "OSError ''[Errno 20] Not a directory''"]
    example_notes_prepare example_idle example_notes_listing
  by (simp add: events_of_def) (simp add: example_state_def abspath_def path_defs)

end
